theory Spec2Isabelle
  imports Main
begin

section \<open>Documents and the store\<close>

text \<open>
  An ObjectId is represented by its canonical string (what \<^verbatim>\<open>toString()\<close> and the
  \<^verbatim>\<open>id\<close> getter of a document return), so that \<^verbatim>\<open>post.user.toString() !== req.user.id\<close>
  is inequality of two strings. The identity \<^verbatim>\<open>req.user.id\<close> that the auth middleware
  hands to a handler is the canonical string of a user's ObjectId; storing it in a
  document and reading it back with \<^verbatim>\<open>toString()\<close> gives the same string.
\<close>

type_synonym objid = string

text \<open>
  A route parameter that is looked up with \<^verbatim>\<open>findById\<close>: either it casts to an
  ObjectId, or the cast fails and the query throws a CastError whose \<^verbatim>\<open>kind\<close> is
  \<^verbatim>\<open>'ObjectId'\<close>.
\<close>

datatype id_param = ObjectId objid | BadId string

datatype error = CastError | TypeError

fun kind :: "error \<Rightarrow> string option" where
  "kind CastError = Some ''ObjectId''"
| "kind TypeError = None"

text \<open>
  Modelled from the spec: the schemas \<^verbatim>\<open>models/Post.js\<close>, \<^verbatim>\<open>models/Profile.js\<close> and
  \<^verbatim>\<open>models/User.js\<close> are not among the sources. The records below hold the fields the
  handlers read and write, with the sub-collections the data model of the specification
  names: a post has \<^verbatim>\<open>likes\<close> (entries with a user reference) and \<^verbatim>\<open>comments\<close> (entries
  with a generated id, text, name and avatar snapshot, user reference and creation
  timestamp).
\<close>

record like_entry =
  like_user :: objid

record comment =
  comment_id :: objid
  comment_text :: string
  comment_name :: string
  comment_avatar :: string
  comment_user :: objid
  comment_date :: nat

record post =
  post_user :: objid
  post_text :: string
  post_name :: string
  post_avatar :: string
  likes :: "like_entry list"
  comments :: "comment list"

record user_doc =
  user_name :: string
  user_avatar :: string

record social_links =
  s_youtube :: "string option"
  s_facebook :: "string option"
  s_twitter :: "string option"
  s_instagram :: "string option"
  s_linkedin :: "string option"

text \<open>The object \<^verbatim>\<open>newExp\<close> of the handler, taken from the request body.\<close>

record newExp =
  title :: "string option"
  exp_company :: "string option"
  exp_location :: "string option"
  exp_from :: "string option"
  exp_to :: "string option"
  exp_current :: "bool option"
  description :: "string option"

text \<open>An entry of \<^verbatim>\<open>profile.experience\<close>: the fields of \<^verbatim>\<open>newExp\<close> and the generated id.\<close>

record experience_entry =
  item_id :: objid
  item_fields :: newExp

record profile =
  p_user :: objid
  p_company :: "string option"
  p_website :: "string option"
  p_location :: "string option"
  p_bio :: "string option"
  p_status :: "string option"
  p_githubusername :: "string option"
  p_skills :: "string list"
  p_social :: social_links
  experience :: "experience_entry list"

text \<open>
  The document store: posts by their id, profiles by their owner (the \<^verbatim>\<open>user\<close> reference
  is unique, and every profile query of the handlers is \<^verbatim>\<open>findOne({ user: req.user.id })\<close>),
  users by their id.
\<close>

record store =
  posts :: "objid \<rightharpoonup> post"
  profiles :: "objid \<rightharpoonup> profile"
  users :: "objid \<rightharpoonup> user_doc"

section \<open>Responses\<close>

text \<open>
  A response is the status code and the body. \<^verbatim>\<open>res.json(x)\<close> has status 200. The body
  of a validation failure is \<^verbatim>\<open>errors.array()\<close>, of which the messages are kept.
\<close>

datatype body =
    Msg string
  | Errors "string list"
  | Send string
  | LikesBody "like_entry list"
  | CommentsBody "comment list"
  | ProfileBody profile

type_synonym response = "nat \<times> body"

definition post_not_found :: response where
  "post_not_found = (404, Msg ''Post not found'')"

definition comment_not_found :: response where
  "comment_not_found = (404, Msg ''Comment does not exist'')"

definition not_authorized :: response where
  "not_authorized = (401, Msg ''User not authorized'')"

definition already_liked :: response where
  "already_liked = (400, Msg ''Post already liked'')"

definition not_yet_liked :: response where
  "not_yet_liked = (400, Msg ''Post has not yet been liked'')"

definition server_error :: response where
  "server_error = (500, Send ''Server Error'')"

section \<open>JavaScript array operations\<close>

text \<open>\<^verbatim>\<open>Array.prototype.indexOf\<close>: the first index of the element, or -1.\<close>

fun indexOf :: "'a list \<Rightarrow> 'a \<Rightarrow> int" where
  "indexOf [] y = - 1"
| "indexOf (x # xs) y =
     (if x = y then 0
      else (let i = indexOf xs y in if i < 0 then - 1 else i + 1))"

text \<open>
  \<^verbatim>\<open>Array.prototype.splice(start, deleteCount)\<close> with no items to insert; the value is
  the array after the call. A negative \<^verbatim>\<open>start\<close> counts from the end of the array.
\<close>

definition splice' :: "'a list \<Rightarrow> int \<Rightarrow> int \<Rightarrow> 'a list" where
  "splice' xs start deleteCount =
     (let len = int (length xs);
          actualStart = (if start < 0 then max (len + start) 0 else min start len);
          actualDeleteCount = min (max deleteCount 0) (len - actualStart)
      in take (nat actualStart) xs @ drop (nat (actualStart + actualDeleteCount)) xs)"

section \<open>The handlers of posts\<close>

text \<open>
  \<^verbatim>\<open>Model.findById\<close>: throws on an id that does not cast, otherwise gives the document
  (here with its id) or \<^verbatim>\<open>null\<close>.
\<close>

fun findById :: "(objid \<rightharpoonup> 'a) \<Rightarrow> id_param \<Rightarrow> error + (objid \<times> 'a) option" where
  "findById m (BadId raw) = Inl CastError"
| "findById m (ObjectId k) = Inr (map_option (Pair k) (m k))"

text \<open>
  Each handler is the body of its \<^verbatim>\<open>try\<close> block, whose value is the exception thrown or
  the response with the store after the call, and the \<^verbatim>\<open>catch\<close> block around it. Every
  exception is thrown before the first write, so the \<^verbatim>\<open>catch\<close> block answers with the
  store as it was.
\<close>

text \<open>\<^verbatim>\<open>DELETE api/posts/:id\<close>\<close>

definition deletePost_try :: "store \<Rightarrow> id_param \<Rightarrow> objid \<Rightarrow> error + (response \<times> store)" where
  "deletePost_try s pid uid =
     (case findById (posts s) pid of
        Inl err \<Rightarrow> Inl err
      | Inr None \<Rightarrow> Inr (post_not_found, s)
      | Inr (Some (k, p)) \<Rightarrow>
          if post_user p \<noteq> uid then Inr (not_authorized, s)
          else Inr ((200, Msg ''Post removed''), s\<lparr>posts := (posts s)(k := None)\<rparr>))"

definition deletePost :: "store \<Rightarrow> id_param \<Rightarrow> objid \<Rightarrow> response \<times> store" where
  "deletePost s pid uid =
     (case deletePost_try s pid uid of
        Inr r \<Rightarrow> r
      | Inl err \<Rightarrow>
          if kind err = Some ''ObjectId'' then (post_not_found, s) else (server_error, s))"

text \<open>\<^verbatim>\<open>PUT api/posts/like/:id\<close>. Reading \<^verbatim>\<open>post.likes\<close> of \<^verbatim>\<open>null\<close> throws a TypeError.\<close>

definition like_try :: "store \<Rightarrow> id_param \<Rightarrow> objid \<Rightarrow> error + (response \<times> store)" where
  "like_try s pid uid =
     (case findById (posts s) pid of
        Inl err \<Rightarrow> Inl err
      | Inr None \<Rightarrow> Inl TypeError
      | Inr (Some (k, p)) \<Rightarrow>
          if length (filter (\<lambda>l. like_user l = uid) (likes p)) > 0
          then Inr (already_liked, s)
          else (let p' = p\<lparr>likes := \<lparr>like_user = uid\<rparr> # likes p\<rparr>
                in Inr ((200, LikesBody (likes p')), s\<lparr>posts := (posts s)(k \<mapsto> p')\<rparr>)))"

definition like :: "store \<Rightarrow> id_param \<Rightarrow> objid \<Rightarrow> response \<times> store" where
  "like s pid uid =
     (case like_try s pid uid of Inr r \<Rightarrow> r | Inl err \<Rightarrow> (server_error, s))"

text \<open>\<^verbatim>\<open>PUT api/posts/unlike/:id\<close>\<close>

definition unlike_try :: "store \<Rightarrow> id_param \<Rightarrow> objid \<Rightarrow> error + (response \<times> store)" where
  "unlike_try s pid uid =
     (case findById (posts s) pid of
        Inl err \<Rightarrow> Inl err
      | Inr None \<Rightarrow> Inl TypeError
      | Inr (Some (k, p)) \<Rightarrow>
          if length (filter (\<lambda>l. like_user l = uid) (likes p)) = 0
          then Inr (not_yet_liked, s)
          else (let removeIndex = indexOf (map like_user (likes p)) uid;
                    p' = p\<lparr>likes := splice' (likes p) removeIndex 1\<rparr>
                in Inr ((200, LikesBody (likes p')), s\<lparr>posts := (posts s)(k \<mapsto> p')\<rparr>)))"

definition unlike :: "store \<Rightarrow> id_param \<Rightarrow> objid \<Rightarrow> response \<times> store" where
  "unlike s pid uid =
     (case unlike_try s pid uid of Inr r \<Rightarrow> r | Inl err \<Rightarrow> (server_error, s))"

text \<open>
  \<^verbatim>\<open>POST api/posts/comment/:id\<close>. The validator \<^verbatim>\<open>check('text').not().isEmpty()\<close> fails
  on a missing and on an empty text. The id of the new comment and its date are
  generated when the entry is added; they are arguments here.
\<close>

definition not_empty :: "string option \<Rightarrow> bool" where
  "not_empty v = (case v of None \<Rightarrow> False | Some x \<Rightarrow> x \<noteq> [])"

definition addComment_try ::
  "store \<Rightarrow> id_param \<Rightarrow> objid \<Rightarrow> string \<Rightarrow> objid \<Rightarrow> nat \<Rightarrow> error + (response \<times> store)" where
  "addComment_try s pid uid txt new_id now =
     (let user = users s uid in
      case findById (posts s) pid of
        Inl err \<Rightarrow> Inl err
      | Inr found \<Rightarrow>
          (case user of
             None \<Rightarrow> Inl TypeError
           | Some u \<Rightarrow>
               (case found of
                  None \<Rightarrow> Inl TypeError
                | Some (k, p) \<Rightarrow>
                    (let newComment = \<lparr>comment_id = new_id, comment_text = txt,
                           comment_name = user_name u, comment_avatar = user_avatar u,
                           comment_user = uid, comment_date = now\<rparr>;
                         p' = p\<lparr>comments := newComment # comments p\<rparr>
                     in Inr ((200, CommentsBody (comments p')),
                             s\<lparr>posts := (posts s)(k \<mapsto> p')\<rparr>)))))"

definition addComment ::
  "store \<Rightarrow> id_param \<Rightarrow> objid \<Rightarrow> string option \<Rightarrow> objid \<Rightarrow> nat \<Rightarrow> response \<times> store" where
  "addComment s pid uid text_field new_id now =
     (case text_field of
        None \<Rightarrow> ((400, Errors [''Text is required'']), s)
      | Some txt \<Rightarrow>
          if \<not> not_empty text_field then ((400, Errors [''Text is required'']), s)
          else (case addComment_try s pid uid txt new_id now of
                  Inr r \<Rightarrow> r
                | Inl err \<Rightarrow> (server_error, s)))"

text \<open>\<^verbatim>\<open>DELETE api/posts/comment/:id/:comment_id\<close>\<close>

definition removeComment_try ::
  "store \<Rightarrow> id_param \<Rightarrow> string \<Rightarrow> objid \<Rightarrow> error + (response \<times> store)" where
  "removeComment_try s pid cid uid =
     (case findById (posts s) pid of
        Inl err \<Rightarrow> Inl err
      | Inr None \<Rightarrow> Inl TypeError
      | Inr (Some (k, p)) \<Rightarrow>
          (case find (\<lambda>c. comment_id c = cid) (comments p) of
             None \<Rightarrow> Inr (comment_not_found, s)
           | Some c \<Rightarrow>
               if comment_user c \<noteq> uid then Inr (not_authorized, s)
               else (let removeIndex = indexOf (map comment_user (comments p)) uid;
                         p' = p\<lparr>comments := splice' (comments p) removeIndex 1\<rparr>
                     in Inr ((200, CommentsBody (comments p')),
                             s\<lparr>posts := (posts s)(k \<mapsto> p')\<rparr>))))"

definition removeComment :: "store \<Rightarrow> id_param \<Rightarrow> string \<Rightarrow> objid \<Rightarrow> response \<times> store" where
  "removeComment s pid cid uid =
     (case removeComment_try s pid cid uid of Inr r \<Rightarrow> r | Inl err \<Rightarrow> (server_error, s))"

section \<open>The handlers of profiles\<close>

text \<open>
  The body of \<^verbatim>\<open>POST api/profile\<close>: each field is missing or a string.
\<close>

record profile_req =
  company :: "string option"
  website :: "string option"
  location :: "string option"
  bio :: "string option"
  status :: "string option"
  githubusername :: "string option"
  skills :: "string option"
  youtube :: "string option"
  facebook :: "string option"
  twitter :: "string option"
  instagram :: "string option"
  linkedin :: "string option"

text \<open>
  The object \<^verbatim>\<open>profileFields\<close>: \<^verbatim>\<open>user\<close> and \<^verbatim>\<open>social\<close> are always set, every other
  key only under its guard.
\<close>

record profileFields =
  pf_user :: objid
  pf_company :: "string option"
  pf_website :: "string option"
  pf_location :: "string option"
  pf_bio :: "string option"
  pf_status :: "string option"
  pf_githubusername :: "string option"
  pf_skills :: "string list option"
  pf_social :: social_links

text \<open>
  \<^verbatim>\<open>if (v) fields.k = v\<close>: the key is set when the value is truthy; a missing value and
  the empty string are falsy.
\<close>

definition truthy :: "string option \<Rightarrow> bool" where
  "truthy v = (case v of None \<Rightarrow> False | Some x \<Rightarrow> x \<noteq> [])"

definition if_truthy :: "string option \<Rightarrow> string option" where
  "if_truthy v = (if truthy v then v else None)"

text \<open>\<^verbatim>\<open>String.prototype.split\<close> with a one-character separator.\<close>

fun split :: "string \<Rightarrow> char \<Rightarrow> string list" where
  "split [] sep = [[]]"
| "split (c # cs) sep =
     (if c = sep then [] # split cs sep
      else (case split cs sep of
              [] \<Rightarrow> [[c]]
            | w # ws \<Rightarrow> (c # w) # ws))"

text \<open>
  \<^verbatim>\<open>String.prototype.trim\<close> removes, at both ends, the code points of WhiteSpace and
  LineTerminator: U+0009 to U+000D, U+0020, U+00A0, U+1680, U+2000 to U+200A, U+2028,
  U+2029, U+202F, U+205F, U+3000 and U+FEFF. A string here is the UTF-8 encoding of the
  text, so that a code point is one, two or three bytes: \<open>ws1\<close>, \<open>ws2\<close> and \<open>ws3\<close> hold
  of the encodings of these code points.
\<close>

definition ws1 :: "char \<Rightarrow> bool" where
  "ws1 a = (a \<in> set [CHR 0x09, CHR 0x0A, CHR 0x0B, CHR 0x0C, CHR 0x0D, CHR 0x20])"

definition ws2 :: "char \<Rightarrow> char \<Rightarrow> bool" where
  "ws2 a b = (a = CHR 0xC2 \<and> b = CHR 0xA0)"

definition ws3 :: "char \<Rightarrow> char \<Rightarrow> char \<Rightarrow> bool" where
  "ws3 a b c =
     ((a = CHR 0xE1 \<and> b = CHR 0x9A \<and> c = CHR 0x80)
      \<or> (a = CHR 0xE2 \<and> b = CHR 0x80 \<and>
          c \<in> set [CHR 0x80, CHR 0x81, CHR 0x82, CHR 0x83, CHR 0x84, CHR 0x85, CHR 0x86,
                    CHR 0x87, CHR 0x88, CHR 0x89, CHR 0x8A, CHR 0xA8, CHR 0xA9, CHR 0xAF])
      \<or> (a = CHR 0xE2 \<and> b = CHR 0x81 \<and> c = CHR 0x9F)
      \<or> (a = CHR 0xE3 \<and> b = CHR 0x80 \<and> c = CHR 0x80)
      \<or> (a = CHR 0xEF \<and> b = CHR 0xBB \<and> c = CHR 0xBF))"

text \<open>
  The string without the white space at its start, for tests \<open>p1\<close>, \<open>p2\<close> and \<open>p3\<close> of
  the encodings of one, two and three bytes.
\<close>

fun strip_start ::
  "(char \<Rightarrow> bool) \<Rightarrow> (char \<Rightarrow> char \<Rightarrow> bool) \<Rightarrow> (char \<Rightarrow> char \<Rightarrow> char \<Rightarrow> bool)
   \<Rightarrow> string \<Rightarrow> string" where
  "strip_start p1 p2 p3 (a # b # c # s) =
     (if p1 a then strip_start p1 p2 p3 (b # c # s)
      else if p2 a b then strip_start p1 p2 p3 (c # s)
      else if p3 a b c then strip_start p1 p2 p3 s
      else a # b # c # s)"
| "strip_start p1 p2 p3 [a, b] =
     (if p1 a then strip_start p1 p2 p3 [b]
      else if p2 a b then []
      else [a, b])"
| "strip_start p1 p2 p3 [a] = (if p1 a then [] else [a])"
| "strip_start p1 p2 p3 [] = []"

definition trimStart :: "string \<Rightarrow> string" where
  "trimStart s = strip_start ws1 ws2 ws3 s"

text \<open>At the end of the string the bytes of an encoding are met in reverse.\<close>

definition trimEnd :: "string \<Rightarrow> string" where
  "trimEnd s = rev (strip_start ws1 (\<lambda>b a. ws2 a b) (\<lambda>c b a. ws3 a b c) (rev s))"

definition trim :: "string \<Rightarrow> string" where
  "trim s = trimEnd (trimStart s)"

definition build_profileFields :: "objid \<Rightarrow> profile_req \<Rightarrow> profileFields" where
  "build_profileFields uid b =
     \<lparr>pf_user = uid,
      pf_company = if_truthy (company b),
      pf_website = if_truthy (website b),
      pf_location = if_truthy (location b),
      pf_bio = if_truthy (bio b),
      pf_status = if_truthy (status b),
      pf_githubusername = if_truthy (githubusername b),
      pf_skills = map_option (\<lambda>sk. map trim (split sk CHR '',''))
                    (if_truthy (skills b)),
      pf_social =
        \<lparr>s_youtube = if_truthy (youtube b),
         s_facebook = if_truthy (facebook b),
         s_twitter = if_truthy (twitter b),
         s_instagram = if_truthy (instagram b),
         s_linkedin = if_truthy (linkedin b)\<rparr>\<rparr>"

text \<open>
  \<^verbatim>\<open>{ $set: profileFields }\<close>: every key of \<^verbatim>\<open>profileFields\<close> replaces the stored value
  of that key, the object \<^verbatim>\<open>social\<close> as a whole; the other keys stay.
\<close>

definition set_key :: "'a option \<Rightarrow> 'a option \<Rightarrow> 'a option" where
  "set_key new old = (case new of None \<Rightarrow> old | Some v \<Rightarrow> Some v)"

definition set_profileFields :: "profileFields \<Rightarrow> profile \<Rightarrow> profile" where
  "set_profileFields f p =
     p\<lparr>p_user := pf_user f,
       p_company := set_key (pf_company f) (p_company p),
       p_website := set_key (pf_website f) (p_website p),
       p_location := set_key (pf_location f) (p_location p),
       p_bio := set_key (pf_bio f) (p_bio p),
       p_status := set_key (pf_status f) (p_status p),
       p_githubusername := set_key (pf_githubusername f) (p_githubusername p),
       p_skills := (case pf_skills f of None \<Rightarrow> p_skills p | Some v \<Rightarrow> v),
       p_social := pf_social f\<rparr>"

text \<open>
  \<^verbatim>\<open>new Profile(profileFields)\<close>: the keys given; an array path that is not given is
  the empty array.
\<close>

definition new_Profile :: "profileFields \<Rightarrow> profile" where
  "new_Profile f =
     \<lparr>p_user = pf_user f,
      p_company = pf_company f,
      p_website = pf_website f,
      p_location = pf_location f,
      p_bio = pf_bio f,
      p_status = pf_status f,
      p_githubusername = pf_githubusername f,
      p_skills = (case pf_skills f of None \<Rightarrow> [] | Some v \<Rightarrow> v),
      p_social = pf_social f,
      experience = []\<rparr>"

text \<open>\<^verbatim>\<open>POST api/profile\<close>\<close>

definition check_field :: "string option \<Rightarrow> string \<Rightarrow> string list" where
  "check_field v msg = (if not_empty v then [] else [msg])"

definition upsertProfile :: "store \<Rightarrow> objid \<Rightarrow> profile_req \<Rightarrow> response \<times> store" where
  "upsertProfile s uid b =
     (let errors = check_field (status b) ''Status is required''
                 @ check_field (skills b) ''Skills are required''
      in if errors \<noteq> [] then ((400, Errors errors), s)
         else (let fields = build_profileFields uid b in
               case profiles s uid of
                 Some p \<Rightarrow>
                   (let p' = set_profileFields fields p
                    in ((200, ProfileBody p'), s\<lparr>profiles := (profiles s)(uid \<mapsto> p')\<rparr>))
               | None \<Rightarrow>
                   (let p' = new_Profile fields
                    in ((200, ProfileBody p'), s\<lparr>profiles := (profiles s)(uid \<mapsto> p')\<rparr>))))"

text \<open>
  \<^verbatim>\<open>PUT api/profile/experience\<close>. Reading \<^verbatim>\<open>profile.experience\<close> of \<^verbatim>\<open>null\<close> throws
  a TypeError. The id of the new entry is generated when the entry is added; it is an
  argument here.
\<close>

definition addExperience_try :: "store \<Rightarrow> objid \<Rightarrow> newExp \<Rightarrow> objid \<Rightarrow> error + (response \<times> store)" where
  "addExperience_try s uid e new_id =
     (case profiles s uid of
        None \<Rightarrow> Inl TypeError
      | Some p \<Rightarrow>
          (let p' = p\<lparr>experience := \<lparr>item_id = new_id, item_fields = e\<rparr> # experience p\<rparr>
           in Inr ((200, ProfileBody p'), s\<lparr>profiles := (profiles s)(uid \<mapsto> p')\<rparr>)))"

definition addExperience :: "store \<Rightarrow> objid \<Rightarrow> newExp \<Rightarrow> objid \<Rightarrow> response \<times> store" where
  "addExperience s uid e new_id =
     (let errors = check_field (title e) ''Title is required''
                 @ check_field (exp_company e) ''Company is required''
                 @ check_field (exp_from e) ''From date is required''
      in if errors \<noteq> [] then ((400, Errors errors), s)
         else (case addExperience_try s uid e new_id of
                 Inr r \<Rightarrow> r
               | Inl err \<Rightarrow> (server_error, s)))"

text \<open>\<^verbatim>\<open>DELETE api/profile/experience/:exp_id\<close>\<close>

definition removeExperience_try :: "store \<Rightarrow> objid \<Rightarrow> string \<Rightarrow> error + (response \<times> store)" where
  "removeExperience_try s uid exp_id =
     (case profiles s uid of
        None \<Rightarrow> Inl TypeError
      | Some p \<Rightarrow>
          (let removeIndex = indexOf (map item_id (experience p)) exp_id;
               p' = p\<lparr>experience := splice' (experience p) removeIndex 1\<rparr>
           in Inr ((200, ProfileBody p'), s\<lparr>profiles := (profiles s)(uid \<mapsto> p')\<rparr>)))"

definition removeExperience :: "store \<Rightarrow> objid \<Rightarrow> string \<Rightarrow> response \<times> store" where
  "removeExperience s uid exp_id =
     (case removeExperience_try s uid exp_id of
        Inr r \<Rightarrow> r
      | Inl err \<Rightarrow> (server_error, s))"

section \<open>Properties\<close>

text \<open>The likes of a post hold at most one entry for a user reference.\<close>

definition likes_unique :: "post \<Rightarrow> bool" where
  "likes_unique p = distinct (map like_user (likes p))"

subsection \<open>A store to evaluate the handlers on\<close>

text \<open>
  Alice's post \<^verbatim>\<open>p1\<close>, liked by Bob, with two comments of Alice, the newer one first;
  Alice's profile with two experience entries; no profile for Bob.
\<close>

definition newer_comment :: comment where
  "newer_comment = \<lparr>comment_id = ''c2'', comment_text = ''and one more thing'',
     comment_name = ''Alice'', comment_avatar = ''alice.png'',
     comment_user = ''alice'', comment_date = 2\<rparr>"

definition older_comment :: comment where
  "older_comment = \<lparr>comment_id = ''c1'', comment_text = ''first'',
     comment_name = ''Alice'', comment_avatar = ''alice.png'',
     comment_user = ''alice'', comment_date = 1\<rparr>"

definition example_post :: post where
  "example_post = \<lparr>post_user = ''alice'', post_text = ''hello'', post_name = ''Alice'',
     post_avatar = ''alice.png'', likes = [\<lparr>like_user = ''bob''\<rparr>],
     comments = [newer_comment, older_comment]\<rparr>"

definition example_job :: newExp where
  "example_job = \<lparr>title = Some ''Engineer'', exp_company = Some ''Acme'',
     exp_location = None, exp_from = Some ''2019-01-01'', exp_to = None,
     exp_current = Some True, description = None\<rparr>"

definition example_profile :: profile where
  "example_profile = \<lparr>p_user = ''alice'', p_company = Some ''Acme'', p_website = None,
     p_location = None, p_bio = None, p_status = Some ''Developer'',
     p_githubusername = None, p_skills = [''HTML'', ''CSS''],
     p_social = \<lparr>s_youtube = Some ''yt'', s_facebook = None, s_twitter = None,
       s_instagram = None, s_linkedin = None\<rparr>,
     experience = [\<lparr>item_id = ''e2'', item_fields = example_job\<rparr>,
                   \<lparr>item_id = ''e1'', item_fields = example_job\<rparr>]\<rparr>"

definition example_store :: store where
  "example_store = \<lparr>posts = [''p1'' \<mapsto> example_post],
     profiles = [''alice'' \<mapsto> example_profile],
     users = [''alice'' \<mapsto> \<lparr>user_name = ''Alice'', user_avatar = ''alice.png''\<rparr>,
              ''bob'' \<mapsto> \<lparr>user_name = ''Bob'', user_avatar = ''bob.png''\<rparr>]\<rparr>"

text \<open>Two bodies of \<^verbatim>\<open>POST api/profile\<close>; the second has an empty \<^verbatim>\<open>bio\<close>.\<close>

definition first_request :: profile_req where
  "first_request = \<lparr>company = Some ''Acme'', website = None, location = None,
     bio = Some ''Writes code'', status = Some ''Developer'', githubusername = None,
     skills = Some ''HTML, CSS'', youtube = Some ''youtube.com/alice'', facebook = None,
     twitter = None, instagram = None, linkedin = None\<rparr>"

definition second_request :: profile_req where
  "second_request = \<lparr>company = None, website = Some ''alice.dev'', location = Some ''Oslo'',
     bio = Some [], status = Some ''Senior developer'', githubusername = None,
     skills = Some ''JS'', youtube = None, facebook = None,
     twitter = Some ''twitter.com/alice'', instagram = None, linkedin = None\<rparr>"

text \<open>
  A body that shares no field with the first one: it has neither \<^verbatim>\<open>status\<close> nor
  \<^verbatim>\<open>skills\<close>.
\<close>

definition disjoint_request :: profile_req where
  "disjoint_request = \<lparr>company = None, website = Some ''alice.dev'', location = Some ''Oslo'',
     bio = None, status = None, githubusername = None, skills = None, youtube = None,
     facebook = None, twitter = Some ''twitter.com/alice'', instagram = None,
     linkedin = None\<rparr>"

subsection \<open>The value of each handler of posts, case by case\<close>

lemma filter_length_pos: "(0 < length (filter P xs)) = (\<exists>x\<in>set xs. P x)"
  by (simp add: filter_empty_conv)

lemma filter_length_zero: "(length (filter P xs) = 0) = (\<forall>x\<in>set xs. \<not> P x)"
  by (simp add: filter_empty_conv)

lemma liked_iff: "(\<exists>x\<in>set ls. like_user x = u) = (u \<in> like_user ` set ls)"
  by auto

lemma like_BadId: "like s (BadId raw) u = (server_error, s)"
  by (simp add: like_def like_try_def)

lemma like_absent: "posts s k = None \<Longrightarrow> like s (ObjectId k) u = (server_error, s)"
  by (simp add: like_def like_try_def)

lemma like_already:
  "posts s k = Some p \<Longrightarrow> u \<in> like_user ` set (likes p) \<Longrightarrow>
   like s (ObjectId k) u = (already_liked, s)"
  by (simp add: like_def like_try_def filter_length_pos liked_iff del: length_greater_0_conv)

lemma like_fresh:
  "posts s k = Some p \<Longrightarrow> u \<notin> like_user ` set (likes p) \<Longrightarrow>
   like s (ObjectId k) u =
     ((200, LikesBody (\<lparr>like_user = u\<rparr> # likes p)),
      s\<lparr>posts := (posts s)(k \<mapsto> p\<lparr>likes := \<lparr>like_user = u\<rparr> # likes p\<rparr>)\<rparr>)"
  by (simp add: like_def like_try_def filter_length_pos liked_iff Let_def del: length_greater_0_conv)

lemma unlike_BadId: "unlike s (BadId raw) u = (server_error, s)"
  by (simp add: unlike_def unlike_try_def)

lemma unlike_absent: "posts s k = None \<Longrightarrow> unlike s (ObjectId k) u = (server_error, s)"
  by (simp add: unlike_def unlike_try_def)

lemma unlike_not_liked:
  "posts s k = Some p \<Longrightarrow> u \<notin> like_user ` set (likes p) \<Longrightarrow>
   unlike s (ObjectId k) u = (not_yet_liked, s)"
  by (simp add: unlike_def unlike_try_def filter_length_zero liked_iff [symmetric] del: length_0_conv)

lemma unlike_liked:
  "posts s k = Some p \<Longrightarrow> u \<in> like_user ` set (likes p) \<Longrightarrow>
   unlike s (ObjectId k) u =
     ((200, LikesBody (splice' (likes p) (indexOf (map like_user (likes p)) u) 1)),
      s\<lparr>posts := (posts s)(k \<mapsto>
           p\<lparr>likes := splice' (likes p) (indexOf (map like_user (likes p)) u) 1\<rparr>)\<rparr>)"
  by (auto simp: unlike_def unlike_try_def filter_length_zero Let_def simp del: length_0_conv)


lemma deletePost_BadId: "deletePost s (BadId raw) u = (post_not_found, s)"
  by (simp add: deletePost_def deletePost_try_def)

lemma deletePost_absent: "posts s k = None \<Longrightarrow> deletePost s (ObjectId k) u = (post_not_found, s)"
  by (simp add: deletePost_def deletePost_try_def)

lemma deletePost_foreign:
  "posts s k = Some p \<Longrightarrow> post_user p \<noteq> u \<Longrightarrow>
   deletePost s (ObjectId k) u = (not_authorized, s)"
  by (simp add: deletePost_def deletePost_try_def)

lemma deletePost_owner:
  "posts s k = Some p \<Longrightarrow> post_user p = u \<Longrightarrow>
   deletePost s (ObjectId k) u =
     ((200, Msg ''Post removed''), s\<lparr>posts := (posts s)(k := None)\<rparr>)"
  by (simp add: deletePost_def deletePost_try_def)

lemma removeComment_BadId: "removeComment s (BadId raw) cid u = (server_error, s)"
  by (simp add: removeComment_def removeComment_try_def)

lemma removeComment_absent:
  "posts s k = None \<Longrightarrow> removeComment s (ObjectId k) cid u = (server_error, s)"
  by (simp add: removeComment_def removeComment_try_def)

lemma removeComment_no_comment:
  "posts s k = Some p \<Longrightarrow> find (\<lambda>c. comment_id c = cid) (comments p) = None \<Longrightarrow>
   removeComment s (ObjectId k) cid u = (comment_not_found, s)"
  by (simp add: removeComment_def removeComment_try_def)

lemma removeComment_foreign:
  "posts s k = Some p \<Longrightarrow> find (\<lambda>c. comment_id c = cid) (comments p) = Some c \<Longrightarrow>
   comment_user c \<noteq> u \<Longrightarrow>
   removeComment s (ObjectId k) cid u = (not_authorized, s)"
  by (simp add: removeComment_def removeComment_try_def)

lemma removeComment_author:
  "posts s k = Some p \<Longrightarrow> find (\<lambda>c. comment_id c = cid) (comments p) = Some c \<Longrightarrow>
   comment_user c = u \<Longrightarrow>
   removeComment s (ObjectId k) cid u =
     ((200, CommentsBody (splice' (comments p) (indexOf (map comment_user (comments p)) u) 1)),
      s\<lparr>posts := (posts s)(k \<mapsto>
           p\<lparr>comments := splice' (comments p) (indexOf (map comment_user (comments p)) u) 1\<rparr>)\<rparr>)"
  by (simp add: removeComment_def removeComment_try_def Let_def)

lemma addComment_store:
  "snd (addComment s pid u txt nid now) = s \<or>
   (\<exists>k p c. pid = ObjectId k \<and> posts s k = Some p \<and>
      snd (addComment s pid u txt nid now) =
        s\<lparr>posts := (posts s)(k \<mapsto> p\<lparr>comments := c # comments p\<rparr>)\<rparr>)"
proof (cases pid)
  case (BadId raw)
  then show ?thesis
    by (simp add: addComment_def addComment_try_def split: option.split)
next
  case (ObjectId k)
  show ?thesis
  proof (cases "posts s k")
    case None
    with ObjectId show ?thesis
      by (simp add: addComment_def addComment_try_def split: option.split)
  next
    case (Some p)
    show ?thesis
    proof (cases "snd (addComment s pid u txt nid now) = s")
      case True
      then show ?thesis by simp
    next
      case False
      with Some ObjectId obtain c where
        "snd (addComment s pid u txt nid now) =
           s\<lparr>posts := (posts s)(k \<mapsto> p\<lparr>comments := c # comments p\<rparr>)\<rparr>"
        by (auto simp: addComment_def addComment_try_def Let_def split: option.splits if_splits)
      with Some ObjectId show ?thesis by blast
    qed
  qed
qed

lemma removeComment_store:
  "snd (removeComment s pid cid u) = s \<or>
   (\<exists>k p cs. pid = ObjectId k \<and> posts s k = Some p \<and>
      snd (removeComment s pid cid u) = s\<lparr>posts := (posts s)(k \<mapsto> p\<lparr>comments := cs\<rparr>)\<rparr>)"
proof (cases pid)
  case (BadId raw)
  then show ?thesis by (simp add: removeComment_BadId)
next
  case (ObjectId k)
  show ?thesis
  proof (cases "posts s k")
    case None
    with ObjectId show ?thesis by (simp add: removeComment_absent)
  next
    case (Some p)
    show ?thesis
    proof (cases "find (\<lambda>c. comment_id c = cid) (comments p)")
      case None
      with Some ObjectId show ?thesis by (simp add: removeComment_no_comment)
    next
      case (Some c)
      show ?thesis
      proof (cases "comment_user c = u")
        case False
        with Some \<open>posts s k = Some p\<close> ObjectId show ?thesis
          by (simp add: removeComment_foreign)
      next
        case True
        have "snd (removeComment s pid cid u) =
          s\<lparr>posts := (posts s)(k \<mapsto>
            p\<lparr>comments := splice' (comments p) (indexOf (map comment_user (comments p)) u) 1\<rparr>)\<rparr>"
          using removeComment_author [OF \<open>posts s k = Some p\<close> Some True] ObjectId by simp
        with \<open>posts s k = Some p\<close> ObjectId show ?thesis by blast
      qed
    qed
  qed
qed

lemma deletePost_store:
  "snd (deletePost s pid u) = s \<or>
   (\<exists>k. pid = ObjectId k \<and> snd (deletePost s pid u) = s\<lparr>posts := (posts s)(k := None)\<rparr>)"
proof (cases pid)
  case (BadId raw)
  then show ?thesis by (simp add: deletePost_BadId)
next
  case (ObjectId k)
  show ?thesis
  proof (cases "posts s k")
    case None
    with ObjectId show ?thesis by (simp add: deletePost_absent)
  next
    case (Some p)
    with ObjectId show ?thesis
      by (cases "post_user p = u") (simp_all add: deletePost_foreign deletePost_owner)
  qed
qed

subsection \<open>What \<^verbatim>\<open>splice\<close> keeps\<close>

lemma splice_take_drop:
  "\<exists>n m. n \<le> m \<and> splice' xs start cnt = take n xs @ drop m xs"
proof -
  define len where "len = int (length xs)"
  define st where "st = (if start < 0 then max (len + start) 0 else min start len)"
  define dc where "dc = min (max cnt 0) (len - st)"
  have st: "0 \<le> st" "st \<le> len" by (auto simp: st_def len_def)
  then have dc: "0 \<le> dc" by (auto simp: dc_def)
  have "splice' xs start cnt = take (nat st) xs @ drop (nat (st + dc)) xs"
    by (simp add: splice'_def Let_def st_def dc_def len_def)
  moreover have "nat st \<le> nat (st + dc)" using st dc by simp
  ultimately show ?thesis by blast
qed

lemma distinct_take_drop:
  assumes "distinct ys" "n \<le> m"
  shows "distinct (take n ys @ drop m ys)"
  unfolding distinct_append using assms
  by (intro conjI distinct_take distinct_drop set_take_disj_set_drop_if_distinct)

lemma distinct_map_splice:
  assumes "distinct (map f xs)"
  shows "distinct (map f (splice' xs start cnt))"
proof -
  obtain n m where nm: "n \<le> m" and eq: "splice' xs start cnt = take n xs @ drop m xs"
    using splice_take_drop by blast
  have "map f (take n xs @ drop m xs) = take n (map f xs) @ drop m (map f xs)"
    by (simp add: take_map drop_map)
  with distinct_take_drop [OF assms nm] eq show ?thesis by (simp only:)
qed

subsection \<open>Every handler of posts keeps the likes unique\<close>

lemma like_unique:
  assumes "posts s q = Some p" "likes_unique p" "posts (snd (like s pid u)) q = Some p'"
  shows "likes_unique p'"
proof (cases pid)
  case (BadId raw)
  with assms show ?thesis by (simp add: like_BadId)
next
  case (ObjectId k)
  show ?thesis
  proof (cases "posts s k")
    case None
    with assms ObjectId show ?thesis by (simp add: like_absent)
  next
    case (Some pk)
    show ?thesis
    proof (cases "u \<in> like_user ` set (likes pk)")
      case True
      with assms ObjectId Some show ?thesis by (simp add: like_already)
    next
      case False
      have eq: "snd (like s pid u) =
          s\<lparr>posts := (posts s)(k \<mapsto> pk\<lparr>likes := \<lparr>like_user = u\<rparr> # likes pk\<rparr>)\<rparr>"
        using ObjectId Some False by (simp add: like_fresh)
      show ?thesis
      proof (cases "q = k")
        case True
        with assms(1) Some have pk: "pk = p" by simp
        from assms(3) eq True pk
        have p': "p' = p\<lparr>likes := \<lparr>like_user = u\<rparr> # likes p\<rparr>" by simp
        from False pk have "u \<notin> set (map like_user (likes p))" by simp
        with assms(2) have "distinct (u # map like_user (likes p))"
          unfolding likes_unique_def by (simp only: distinct.simps simp_thms)
        with p' show ?thesis by (simp add: likes_unique_def)
      next
        case False
        with assms eq show ?thesis by simp
      qed
    qed
  qed
qed

lemma unlike_unique:
  assumes "posts s q = Some p" "likes_unique p" "posts (snd (unlike s pid u)) q = Some p'"
  shows "likes_unique p'"
proof (cases pid)
  case (BadId raw)
  with assms show ?thesis by (simp add: unlike_BadId)
next
  case (ObjectId k)
  show ?thesis
  proof (cases "posts s k")
    case None
    with assms ObjectId show ?thesis by (simp add: unlike_absent)
  next
    case (Some pk)
    show ?thesis
    proof (cases "u \<in> like_user ` set (likes pk)")
      case False
      with assms ObjectId Some show ?thesis by (simp add: unlike_not_liked)
    next
      case True
      have eq: "snd (unlike s pid u) =
          s\<lparr>posts := (posts s)(k \<mapsto>
             pk\<lparr>likes := splice' (likes pk) (indexOf (map like_user (likes pk)) u) 1\<rparr>)\<rparr>"
        using ObjectId Some True by (simp add: unlike_liked)
      show ?thesis
      proof (cases "q = k")
        case True
        with assms(1) Some have pk: "pk = p" by simp
        from assms(3) eq True pk
        have p': "likes p' = splice' (likes p) (indexOf (map like_user (likes p)) u) 1"
          by auto
        have "distinct (map like_user (splice' (likes p) (indexOf (map like_user (likes p)) u) 1))"
          using assms(2) unfolding likes_unique_def by (rule distinct_map_splice)
        with p' show ?thesis unfolding likes_unique_def by (simp only:)
      next
        case False
        with assms eq show ?thesis by simp
      qed
    qed
  qed
qed

lemma addComment_unique:
  assumes "posts s q = Some p" "likes_unique p"
    "posts (snd (addComment s pid u t nid now)) q = Some p'"
  shows "likes_unique p'"
proof -
  consider "snd (addComment s pid u t nid now) = s"
    | k pk c where "posts s k = Some pk"
        "snd (addComment s pid u t nid now) =
           s\<lparr>posts := (posts s)(k \<mapsto> pk\<lparr>comments := c # comments pk\<rparr>)\<rparr>"
    using addComment_store by blast
  then show ?thesis
  proof cases
    case 1
    with assms show ?thesis by simp
  next
    case 2
    show ?thesis
    proof (cases "q = k")
      case True
      with assms 2 have "p' = p\<lparr>comments := c # comments p\<rparr>" by simp
      with assms(2) show ?thesis by (simp add: likes_unique_def)
    next
      case False
      with assms 2 show ?thesis by simp
    qed
  qed
qed

lemma removeComment_unique:
  assumes "posts s q = Some p" "likes_unique p"
    "posts (snd (removeComment s pid cid u)) q = Some p'"
  shows "likes_unique p'"
proof -
  consider "snd (removeComment s pid cid u) = s"
    | k pk cs where "posts s k = Some pk"
        "snd (removeComment s pid cid u) =
           s\<lparr>posts := (posts s)(k \<mapsto> pk\<lparr>comments := cs\<rparr>)\<rparr>"
    using removeComment_store by blast
  then show ?thesis
  proof cases
    case 1
    with assms show ?thesis by simp
  next
    case 2
    show ?thesis
    proof (cases "q = k")
      case True
      with assms 2 have "p' = p\<lparr>comments := cs\<rparr>" by simp
      with assms(2) show ?thesis by (simp add: likes_unique_def)
    next
      case False
      with assms 2 show ?thesis by simp
    qed
  qed
qed

lemma deletePost_unique:
  assumes "posts s q = Some p" "likes_unique p" "posts (snd (deletePost s pid u)) q = Some p'"
  shows "likes_unique p'"
proof -
  consider "snd (deletePost s pid u) = s"
    | k where "snd (deletePost s pid u) = s\<lparr>posts := (posts s)(k := None)\<rparr>"
    using deletePost_store by blast
  then show ?thesis
  proof cases
    case 1
    with assms show ?thesis by simp
  next
    case 2
    with assms show ?thesis by (cases "q = k") simp_all
  qed
qed

lemma like_twice:
  assumes "posts s k = Some p"
  shows "like (snd (like s (ObjectId k) u)) (ObjectId k) u =
           (already_liked, snd (like s (ObjectId k) u))"
proof (cases "u \<in> like_user ` set (likes p)")
  case True
  with assms show ?thesis by (simp add: like_already)
next
  case False
  let ?p1 = "p\<lparr>likes := \<lparr>like_user = u\<rparr> # likes p\<rparr>"
  let ?s1 = "s\<lparr>posts := (posts s)(k \<mapsto> ?p1)\<rparr>"
  have s1: "snd (like s (ObjectId k) u) = ?s1"
    using assms False by (simp add: like_fresh)
  have "posts ?s1 k = Some ?p1" by simp
  moreover have "u \<in> like_user ` set (likes ?p1)" by simp
  ultimately have "like ?s1 (ObjectId k) u = (already_liked, ?s1)"
    by (rule like_already)
  with s1 show ?thesis by simp
qed

section \<open>The claims about posts\<close>

text \<open>
  Claim C1, on the code as it is. The handler finds the comment by its id, and then
  removes the entry at the first index whose author is the requester. On Alice's post
  with her comments \<^verbatim>\<open>c2\<close> (newer, first) and \<^verbatim>\<open>c1\<close>, her request to remove \<^verbatim>\<open>c1\<close>
  removes \<^verbatim>\<open>c2\<close>: the comment named by the request is the one that stays.
\<close>

theorem removeComment_takes_first_of_author:
  "fst (removeComment example_store (ObjectId ''p1'') ''c1'' ''alice'')
     = (200, CommentsBody [older_comment])
   \<and> map_option comments (posts (snd (removeComment example_store (ObjectId ''p1'') ''c1'' ''alice'')) ''p1'')
     = Some [older_comment]
   \<and> comment_id older_comment = ''c1''"
  by (simp add: removeComment_def removeComment_try_def example_store_def example_post_def
      newer_comment_def older_comment_def splice'_def Let_def)

text \<open>
  Claim C2. When the requester is not the owner, \<^verbatim>\<open>deletePost\<close> on a post and
  \<^verbatim>\<open>removeComment\<close> on a comment (the one the handler finds for the comment id) answer
  401 \<^verbatim>\<open>User not authorized\<close>, which is neither of the two 404 answers nor the 500
  answer, and the store, so the post with its likes and comments, is as before.
\<close>

theorem foreign_requester_not_authorized:
  assumes "a \<noteq> b" and "posts s k = Some p"
  shows "(post_user p = a \<longrightarrow> deletePost s (ObjectId k) b = (not_authorized, s))
    \<and> (find (\<lambda>c. comment_id c = cid) (comments p) = Some c \<and> comment_user c = a
         \<longrightarrow> removeComment s (ObjectId k) cid b = (not_authorized, s))
    \<and> not_authorized \<noteq> post_not_found
    \<and> not_authorized \<noteq> comment_not_found
    \<and> not_authorized \<noteq> server_error"
  using assms
  by (auto simp: deletePost_foreign removeComment_foreign not_authorized_def
      post_not_found_def comment_not_found_def server_error_def)

theorem foreign_requester_not_authorized_witness:
  "''alice'' \<noteq> ''bob''
   \<and> posts example_store ''p1'' = Some example_post
   \<and> post_user example_post = ''alice''
   \<and> find (\<lambda>c. comment_id c = ''c1'') (comments example_post) = Some older_comment
   \<and> comment_user older_comment = ''alice''
   \<and> deletePost example_store (ObjectId ''p1'') ''bob'' = (not_authorized, example_store)
   \<and> removeComment example_store (ObjectId ''p1'') ''c1'' ''bob'' = (not_authorized, example_store)"
proof -
  have ne: "''alice'' \<noteq> ''bob''" by simp
  have p: "posts example_store ''p1'' = Some example_post"
    by (simp add: example_store_def)
  have owner: "post_user example_post = ''alice''"
    by (simp add: example_post_def)
  have found: "find (\<lambda>c. comment_id c = ''c1'') (comments example_post) = Some older_comment"
    by (simp add: example_post_def newer_comment_def older_comment_def)
  have author: "comment_user older_comment = ''alice''"
    by (simp add: older_comment_def)
  from foreign_requester_not_authorized [OF ne p, where cid = "''c1''" and c = older_comment]
    ne p owner found author
  show ?thesis by simp
qed

text \<open>
  Claim C3. A post whose likes are unique has unique likes after \<^verbatim>\<open>like\<close>, \<^verbatim>\<open>unlike\<close>,
  \<^verbatim>\<open>addComment\<close>, \<^verbatim>\<open>removeComment\<close> and \<^verbatim>\<open>deletePost\<close>, whatever post and user the call
  names. A second \<^verbatim>\<open>like\<close> of the post by the same user answers 400
  \<^verbatim>\<open>Post already liked\<close>, which is not the 500 answer, and leaves the store, so the likes
  and their number, as the first call left it.
\<close>

theorem likes_stay_unique:
  assumes "posts s q = Some p" and "likes_unique p"
  shows "(\<forall>p'. posts (snd (like s pid u)) q = Some p' \<longrightarrow> likes_unique p')
    \<and> (\<forall>p'. posts (snd (unlike s pid u)) q = Some p' \<longrightarrow> likes_unique p')
    \<and> (\<forall>p'. posts (snd (addComment s pid u t nid now)) q = Some p' \<longrightarrow> likes_unique p')
    \<and> (\<forall>p'. posts (snd (removeComment s pid cid u)) q = Some p' \<longrightarrow> likes_unique p')
    \<and> (\<forall>p'. posts (snd (deletePost s pid u)) q = Some p' \<longrightarrow> likes_unique p')
    \<and> like (snd (like s (ObjectId q) u)) (ObjectId q) u
         = (already_liked, snd (like s (ObjectId q) u))
    \<and> already_liked \<noteq> server_error"
proof (intro conjI allI impI)
  fix p' assume "posts (snd (like s pid u)) q = Some p'"
  with assms show "likes_unique p'" by (rule like_unique)
next
  fix p' assume "posts (snd (unlike s pid u)) q = Some p'"
  with assms show "likes_unique p'" by (rule unlike_unique)
next
  fix p' assume "posts (snd (addComment s pid u t nid now)) q = Some p'"
  with assms show "likes_unique p'" by (rule addComment_unique)
next
  fix p' assume "posts (snd (removeComment s pid cid u)) q = Some p'"
  with assms show "likes_unique p'" by (rule removeComment_unique)
next
  fix p' assume "posts (snd (deletePost s pid u)) q = Some p'"
  with assms show "likes_unique p'" by (rule deletePost_unique)
next
  show "like (snd (like s (ObjectId q) u)) (ObjectId q) u
          = (already_liked, snd (like s (ObjectId q) u))"
    using assms(1) by (rule like_twice)
next
  show "already_liked \<noteq> server_error"
    by (simp add: already_liked_def server_error_def)
qed

theorem likes_stay_unique_witness:
  "posts example_store ''p1'' = Some example_post
   \<and> likes_unique example_post
   \<and> map_option (map like_user \<circ> likes)
        (posts (snd (like example_store (ObjectId ''p1'') ''alice'')) ''p1'')
       = Some [''alice'', ''bob'']
   \<and> map_option likes_unique
        (posts (snd (like example_store (ObjectId ''p1'') ''alice'')) ''p1'') = Some True
   \<and> like (snd (like example_store (ObjectId ''p1'') ''alice'')) (ObjectId ''p1'') ''alice''
       = (already_liked, snd (like example_store (ObjectId ''p1'') ''alice''))"
proof -
  have p: "posts example_store ''p1'' = Some example_post"
    by (simp add: example_store_def)
  have u: "likes_unique example_post"
    by (simp add: likes_unique_def example_post_def)
  have l: "map_option (map like_user \<circ> likes)
        (posts (snd (like example_store (ObjectId ''p1'') ''alice'')) ''p1'')
       = Some [''alice'', ''bob'']"
    by (simp add: like_def like_try_def example_store_def example_post_def Let_def)
  from l obtain p1 where
    p1: "posts (snd (like example_store (ObjectId ''p1'') ''alice'')) ''p1'' = Some p1"
    by (cases "posts (snd (like example_store (ObjectId ''p1'') ''alice'')) ''p1''") simp_all
  from likes_stay_unique [OF p u, where pid = "ObjectId ''p1''" and u = "''alice''"] p1
  have "likes_unique p1"
    and "like (snd (like example_store (ObjectId ''p1'') ''alice'')) (ObjectId ''p1'') ''alice''
       = (already_liked, snd (like example_store (ObjectId ''p1'') ''alice''))"
    by blast+
  with p u l p1 show ?thesis by simp
qed

text \<open>
  Claim C4, on the code as it is. For a post id that casts and matches no post, \<^verbatim>\<open>like\<close>,
  \<^verbatim>\<open>unlike\<close> and \<^verbatim>\<open>removeComment\<close> read a field of \<^verbatim>\<open>null\<close>; the TypeError reaches the
  \<^verbatim>\<open>catch\<close> block and the answer is 500 \<^verbatim>\<open>Server Error\<close>, not a 404. \<^verbatim>\<open>deletePost\<close> on the
  same id answers 404 \<^verbatim>\<open>Post not found\<close>. The store is unchanged in each case.
\<close>

theorem absent_post_is_server_error:
  "posts example_store ''p9'' = None
   \<and> like example_store (ObjectId ''p9'') ''bob'' = (server_error, example_store)
   \<and> unlike example_store (ObjectId ''p9'') ''bob'' = (server_error, example_store)
   \<and> removeComment example_store (ObjectId ''p9'') ''c1'' ''bob'' = (server_error, example_store)
   \<and> deletePost example_store (ObjectId ''p9'') ''bob'' = (post_not_found, example_store)
   \<and> server_error \<noteq> post_not_found"
proof -
  have "posts example_store ''p9'' = None" by (simp add: example_store_def)
  then show ?thesis
    by (simp add: like_absent unlike_absent removeComment_absent deletePost_absent
        server_error_def post_not_found_def)
qed

text \<open>
  Claim C7, as the code has it. The claim asks for two different answers, one for an id
  that does not cast and one for an id that matches no document. \<^verbatim>\<open>deletePost\<close> gives
  the same 404 \<^verbatim>\<open>Post not found\<close> for both; \<^verbatim>\<open>like\<close>, \<^verbatim>\<open>unlike\<close> and \<^verbatim>\<open>removeComment\<close>
  give 500 \<^verbatim>\<open>Server Error\<close> for an id that does not cast.
\<close>

theorem bad_id_answers_counterexample:
  "fst (deletePost example_store (BadId ''xyz'') ''alice'')
     = fst (deletePost example_store (ObjectId ''p9'') ''alice'')
   \<and> fst (like example_store (BadId ''xyz'') ''alice'') = server_error
   \<and> fst (unlike example_store (BadId ''xyz'') ''alice'') = server_error
   \<and> fst (removeComment example_store (BadId ''xyz'') ''c1'' ''alice'') = server_error"
proof -
  have "posts example_store ''p9'' = None" by (simp add: example_store_def)
  then show ?thesis
    by (simp add: deletePost_BadId deletePost_absent like_BadId unlike_BadId
        removeComment_BadId)
qed

text \<open>
  Claim C7, amended. \<^verbatim>\<open>deletePost\<close> answers an id that does not cast with 404
  \<^verbatim>\<open>Post not found\<close>, not with the 500 answer; it is the answer it gives for an id that
  matches no post; the store is unchanged.
\<close>

theorem deletePost_bad_id_is_not_found:
  assumes "posts s k = None"
  shows "deletePost s (BadId raw) u = (post_not_found, s)
    \<and> deletePost s (ObjectId k) u = (post_not_found, s)
    \<and> post_not_found \<noteq> server_error"
  using assms
  by (simp add: deletePost_BadId deletePost_absent post_not_found_def server_error_def)

theorem deletePost_bad_id_is_not_found_witness:
  "posts example_store ''p9'' = None
   \<and> deletePost example_store (BadId ''xyz'') ''alice'' = (post_not_found, example_store)
   \<and> deletePost example_store (ObjectId ''p9'') ''alice'' = (post_not_found, example_store)"
proof -
  have absent: "posts example_store ''p9'' = None" by (simp add: example_store_def)
  from deletePost_bad_id_is_not_found [OF absent, where raw = "''xyz''" and u = "''alice''"] absent
  show ?thesis by simp
qed

section \<open>The claims about experience entries\<close>

lemma addExperience_no_profile:
  "profiles s u = None \<Longrightarrow> not_empty (title e) \<Longrightarrow> not_empty (exp_company e) \<Longrightarrow>
   not_empty (exp_from e) \<Longrightarrow> addExperience s u e nid = (server_error, s)"
  by (simp add: addExperience_def addExperience_try_def check_field_def)

lemma addExperience_added:
  "profiles s u = Some p \<Longrightarrow> not_empty (title e) \<Longrightarrow> not_empty (exp_company e) \<Longrightarrow>
   not_empty (exp_from e) \<Longrightarrow>
   addExperience s u e nid =
     ((200, ProfileBody (p\<lparr>experience := \<lparr>item_id = nid, item_fields = e\<rparr> # experience p\<rparr>)),
      s\<lparr>profiles := (profiles s)(u \<mapsto>
           p\<lparr>experience := \<lparr>item_id = nid, item_fields = e\<rparr> # experience p\<rparr>)\<rparr>)"
  by (simp add: addExperience_def addExperience_try_def check_field_def Let_def)

lemma removeExperience_spliced:
  "profiles s u = Some p \<Longrightarrow>
   removeExperience s u x =
     ((200, ProfileBody (p\<lparr>experience :=
          splice' (experience p) (indexOf (map item_id (experience p)) x) 1\<rparr>)),
      s\<lparr>profiles := (profiles s)(u \<mapsto>
           p\<lparr>experience := splice' (experience p) (indexOf (map item_id (experience p)) x) 1\<rparr>)\<rparr>)"
  by (simp add: removeExperience_def removeExperience_try_def Let_def)

lemma splice_head: "splice' (x # xs) 0 1 = xs"
  by (simp add: splice'_def Let_def)

text \<open>
  Claim C5, on the code as it is. For an entry id that is in no entry, \<^verbatim>\<open>indexOf\<close> is
  -1 and \<^verbatim>\<open>splice(-1, 1)\<close> removes the last entry. On Alice's profile with the entries
  \<^verbatim>\<open>e2\<close> and \<^verbatim>\<open>e1\<close>, removing the absent \<^verbatim>\<open>e9\<close> answers 200 and leaves \<^verbatim>\<open>e2\<close> alone.
\<close>

theorem removeExperience_absent_id_drops_last:
  "''e9'' \<notin> set (map item_id (experience example_profile))
   \<and> map item_id (experience example_profile) = [''e2'', ''e1'']
   \<and> fst (fst (removeExperience example_store ''alice'' ''e9'')) = 200
   \<and> map_option (map item_id \<circ> experience)
        (profiles (snd (removeExperience example_store ''alice'' ''e9'')) ''alice'')
       = Some [''e2'']"
  by (simp add: removeExperience_def removeExperience_try_def example_store_def
      example_profile_def splice'_def Let_def)

text \<open>
  Claim C6, on the code as it is. For a user with no profile, \<^verbatim>\<open>findOne\<close> gives \<^verbatim>\<open>null\<close>,
  reading \<^verbatim>\<open>profile.experience\<close> throws a TypeError, and the answer is 500
  \<^verbatim>\<open>Server Error\<close>. Nothing is written.
\<close>

theorem addExperience_without_profile_is_server_error:
  "profiles example_store ''bob'' = None
   \<and> addExperience example_store ''bob'' example_job ''e3'' = (server_error, example_store)"
  by (simp add: addExperience_def addExperience_try_def check_field_def not_empty_def
      example_store_def example_job_def)

text \<open>
  Claim C8. On an existing profile, \<^verbatim>\<open>addExperience\<close> with a body that passes the
  validation puts the new entry, with its generated id, at the head of \<^verbatim>\<open>experience\<close>;
  \<^verbatim>\<open>removeExperience\<close> with that id then gives back the sequence as it was before, and
  with it the whole store.
\<close>

theorem add_then_remove_experience:
  assumes "profiles s u = Some p"
    and "not_empty (title e)" and "not_empty (exp_company e)" and "not_empty (exp_from e)"
  shows "map_option experience (profiles (snd (addExperience s u e nid)) u)
           = Some (\<lparr>item_id = nid, item_fields = e\<rparr> # experience p)
    \<and> map_option experience
         (profiles (snd (removeExperience (snd (addExperience s u e nid)) u nid)) u)
           = Some (experience p)
    \<and> snd (removeExperience (snd (addExperience s u e nid)) u nid) = s"
proof -
  let ?p1 = "p\<lparr>experience := \<lparr>item_id = nid, item_fields = e\<rparr> # experience p\<rparr>"
  let ?s1 = "s\<lparr>profiles := (profiles s)(u \<mapsto> ?p1)\<rparr>"
  have s1: "snd (addExperience s u e nid) = ?s1"
    using assms by (simp add: addExperience_added)
  have p1: "profiles ?s1 u = Some ?p1" by simp
  have "splice' (experience ?p1) (indexOf (map item_id (experience ?p1)) nid) 1 = experience p"
    by (simp add: splice_head)
  then have restored: "?p1\<lparr>experience :=
      splice' (experience ?p1) (indexOf (map item_id (experience ?p1)) nid) 1\<rparr> = p"
    by simp
  have "snd (removeExperience ?s1 u nid) = ?s1\<lparr>profiles := (profiles ?s1)(u \<mapsto> p)\<rparr>"
    unfolding removeExperience_spliced [OF p1] restored by simp
  also have "\<dots> = s"
    using assms(1) by (simp add: map_upd_triv)
  finally have s2: "snd (removeExperience ?s1 u nid) = s" .
  from s1 s2 p1 assms(1) show ?thesis by simp
qed

theorem add_then_remove_experience_witness:
  "profiles example_store ''alice'' = Some example_profile
   \<and> not_empty (title example_job) \<and> not_empty (exp_company example_job)
   \<and> not_empty (exp_from example_job)
   \<and> map_option experience
        (profiles (snd (addExperience example_store ''alice'' example_job ''e3'')) ''alice'')
       = Some (\<lparr>item_id = ''e3'', item_fields = example_job\<rparr> # experience example_profile)
   \<and> map_option experience
        (profiles (snd (removeExperience
           (snd (addExperience example_store ''alice'' example_job ''e3'')) ''alice'' ''e3'')) ''alice'')
       = Some (experience example_profile)"
proof -
  have p: "profiles example_store ''alice'' = Some example_profile"
    by (simp add: example_store_def)
  have v: "not_empty (title example_job)" "not_empty (exp_company example_job)"
    "not_empty (exp_from example_job)"
    by (simp_all add: not_empty_def example_job_def)
  from add_then_remove_experience [OF p v, where nid = "''e3''"] p v
  show ?thesis by blast
qed

section \<open>The claims about \<^verbatim>\<open>upsertProfile\<close>\<close>

lemma upsertProfile_stored:
  "profiles (snd (upsertProfile s u b)) u =
     (if not_empty (status b) \<and> not_empty (skills b)
      then Some (case profiles s u of
                   Some p \<Rightarrow> set_profileFields (build_profileFields u b) p
                 | None \<Rightarrow> new_Profile (build_profileFields u b))
      else profiles s u)"
  by (simp add: upsertProfile_def check_field_def Let_def split: option.split)

lemma if_truthy_supplied: "truthy v \<Longrightarrow> if_truthy v = v"
  by (simp add: if_truthy_def)

lemma if_truthy_omitted: "\<not> truthy v \<Longrightarrow> if_truthy v = None"
  by (simp add: if_truthy_def)

lemma set_key_None: "set_key None old = old"
  by (simp add: set_key_def)

lemma set_key_truthy: "truthy v \<Longrightarrow> set_key v old = v"
  by (cases v) (simp_all add: set_key_def truthy_def)

lemma first_upsert_fields:
  assumes "not_empty (status b)" and "not_empty (skills b)"
  shows "\<exists>p1. profiles (snd (upsertProfile s u b)) u = Some p1
    \<and> (truthy (company b) \<longrightarrow> p_company p1 = company b)
    \<and> (truthy (website b) \<longrightarrow> p_website p1 = website b)
    \<and> (truthy (location b) \<longrightarrow> p_location p1 = location b)
    \<and> (truthy (bio b) \<longrightarrow> p_bio p1 = bio b)
    \<and> (truthy (githubusername b) \<longrightarrow> p_githubusername p1 = githubusername b)
    \<and> p_social p1 = pf_social (build_profileFields u b)"
proof (cases "profiles s u")
  case None
  with assms show ?thesis
    by (simp add: upsertProfile_stored new_Profile_def build_profileFields_def
        if_truthy_supplied)
next
  case (Some p)
  with assms show ?thesis
    by (simp add: upsertProfile_stored set_profileFields_def build_profileFields_def
        if_truthy_supplied set_key_truthy)
qed

lemma second_upsert_fields:
  assumes "profiles s u = Some p1" and "not_empty (status b)" and "not_empty (skills b)"
  shows "\<exists>p2. profiles (snd (upsertProfile s u b)) u = Some p2
    \<and> (\<not> truthy (company b) \<longrightarrow> p_company p2 = p_company p1)
    \<and> (\<not> truthy (website b) \<longrightarrow> p_website p2 = p_website p1)
    \<and> (\<not> truthy (location b) \<longrightarrow> p_location p2 = p_location p1)
    \<and> (\<not> truthy (bio b) \<longrightarrow> p_bio p2 = p_bio p1)
    \<and> (\<not> truthy (githubusername b) \<longrightarrow> p_githubusername p2 = p_githubusername p1)
    \<and> p_social p2 = pf_social (build_profileFields u b)"
  using assms
  by (simp add: upsertProfile_stored set_profileFields_def build_profileFields_def
      if_truthy_omitted set_key_None)

lemma upsertProfile_rejected:
  assumes "\<not> not_empty (status b) \<or> \<not> not_empty (skills b)"
  shows "fst (fst (upsertProfile s u b)) = 400" and "snd (upsertProfile s u b) = s"
  using assms by (auto simp: upsertProfile_def check_field_def Let_def)

text \<open>
  Claim C9, as the code has it. The validation asks for \<^verbatim>\<open>status\<close> and \<^verbatim>\<open>skills\<close> in every
  call, so a second call whose fields are disjoint from those of the first is answered
  with 400 and writes nothing: \<^verbatim>\<open>social\<close> is not rebuilt. After the first body, the
  disjoint body with \<^verbatim>\<open>website\<close>, \<^verbatim>\<open>location\<close> and \<^verbatim>\<open>twitter\<close> leaves \<^verbatim>\<open>social\<close> with the
  \<^verbatim>\<open>youtube\<close> key of the first call and without the \<^verbatim>\<open>twitter\<close> key of the second.
\<close>

theorem disjoint_second_upsert_counterexample:
  "fst (upsertProfile (snd (upsertProfile example_store ''alice'' first_request))
          ''alice'' disjoint_request)
     = (400, Errors [''Status is required'', ''Skills are required''])
   \<and> map_option p_social
        (profiles (snd (upsertProfile (snd (upsertProfile example_store ''alice'' first_request))
           ''alice'' disjoint_request)) ''alice'')
       = Some \<lparr>s_youtube = Some ''youtube.com/alice'', s_facebook = None, s_twitter = None,
               s_instagram = None, s_linkedin = None\<rparr>"
proof -
  let ?s1 = "snd (upsertProfile example_store ''alice'' first_request)"
  have answer: "fst (upsertProfile ?s1 ''alice'' disjoint_request)
      = (400, Errors [''Status is required'', ''Skills are required''])"
    by (simp add: upsertProfile_def [of ?s1] check_field_def not_empty_def disjoint_request_def)
  have same: "snd (upsertProfile ?s1 ''alice'' disjoint_request) = ?s1"
    by (rule upsertProfile_rejected) (simp add: not_empty_def disjoint_request_def)
  have "map_option p_social (profiles ?s1 ''alice'')
       = Some \<lparr>s_youtube = Some ''youtube.com/alice'', s_facebook = None, s_twitter = None,
               s_instagram = None, s_linkedin = None\<rparr>"
    by (simp add: upsertProfile_stored example_store_def set_profileFields_def
        build_profileFields_def if_truthy_def truthy_def not_empty_def first_request_def)
  with answer same show ?thesis by (simp only: simp_thms)
qed

text \<open>
  Claim C9, amended. After a first call that passes the validation, a second call that
  passes it too (so both give \<^verbatim>\<open>status\<close> and \<^verbatim>\<open>skills\<close>) leaves every other top-level field
  that the first call gave and the second did not at the value of the first call, and
  \<^verbatim>\<open>social\<close> holds the platform keys of the second call only: a key the second call does
  not give is absent, also when the first call gave it. A second call without \<^verbatim>\<open>status\<close>
  or without \<^verbatim>\<open>skills\<close> is answered with 400 and leaves the store as the first call left it.
\<close>

theorem second_upsert_keeps_first_only_fields:
  assumes "not_empty (status b1)" and "not_empty (skills b1)"
  shows "(not_empty (status b2) \<and> not_empty (skills b2) \<longrightarrow>
      (\<exists>p2. profiles (snd (upsertProfile (snd (upsertProfile s u b1)) u b2)) u = Some p2
        \<and> (truthy (company b1) \<and> \<not> truthy (company b2) \<longrightarrow> p_company p2 = company b1)
        \<and> (truthy (website b1) \<and> \<not> truthy (website b2) \<longrightarrow> p_website p2 = website b1)
        \<and> (truthy (location b1) \<and> \<not> truthy (location b2) \<longrightarrow> p_location p2 = location b1)
        \<and> (truthy (bio b1) \<and> \<not> truthy (bio b2) \<longrightarrow> p_bio p2 = bio b1)
        \<and> (truthy (githubusername b1) \<and> \<not> truthy (githubusername b2)
             \<longrightarrow> p_githubusername p2 = githubusername b1)
        \<and> p_social p2 =
             \<lparr>s_youtube = if_truthy (youtube b2), s_facebook = if_truthy (facebook b2),
              s_twitter = if_truthy (twitter b2), s_instagram = if_truthy (instagram b2),
              s_linkedin = if_truthy (linkedin b2)\<rparr>
        \<and> (\<not> truthy (youtube b2) \<longrightarrow> s_youtube (p_social p2) = None)
        \<and> (\<not> truthy (facebook b2) \<longrightarrow> s_facebook (p_social p2) = None)
        \<and> (\<not> truthy (twitter b2) \<longrightarrow> s_twitter (p_social p2) = None)
        \<and> (\<not> truthy (instagram b2) \<longrightarrow> s_instagram (p_social p2) = None)
        \<and> (\<not> truthy (linkedin b2) \<longrightarrow> s_linkedin (p_social p2) = None)))
    \<and> (\<not> not_empty (status b2) \<or> \<not> not_empty (skills b2) \<longrightarrow>
          fst (fst (upsertProfile (snd (upsertProfile s u b1)) u b2)) = 400
        \<and> snd (upsertProfile (snd (upsertProfile s u b1)) u b2) = snd (upsertProfile s u b1))"
proof (intro conjI impI)
  assume v2: "not_empty (status b2) \<and> not_empty (skills b2)"
  obtain p1 where p1: "profiles (snd (upsertProfile s u b1)) u = Some p1"
    and f1: "truthy (company b1) \<longrightarrow> p_company p1 = company b1"
      "truthy (website b1) \<longrightarrow> p_website p1 = website b1"
      "truthy (location b1) \<longrightarrow> p_location p1 = location b1"
      "truthy (bio b1) \<longrightarrow> p_bio p1 = bio b1"
      "truthy (githubusername b1) \<longrightarrow> p_githubusername p1 = githubusername b1"
    using first_upsert_fields [OF assms(1,2), of s u] by blast
  from v2 have v2s: "not_empty (status b2)" and v2k: "not_empty (skills b2)" by simp_all
  obtain p2 where p2: "profiles (snd (upsertProfile (snd (upsertProfile s u b1)) u b2)) u = Some p2"
    and f2: "\<not> truthy (company b2) \<longrightarrow> p_company p2 = p_company p1"
      "\<not> truthy (website b2) \<longrightarrow> p_website p2 = p_website p1"
      "\<not> truthy (location b2) \<longrightarrow> p_location p2 = p_location p1"
      "\<not> truthy (bio b2) \<longrightarrow> p_bio p2 = p_bio p1"
      "\<not> truthy (githubusername b2) \<longrightarrow> p_githubusername p2 = p_githubusername p1"
    and so: "p_social p2 = pf_social (build_profileFields u b2)"
    using second_upsert_fields [OF p1 v2s v2k] by blast
  have social: "p_social p2 =
         \<lparr>s_youtube = if_truthy (youtube b2), s_facebook = if_truthy (facebook b2),
          s_twitter = if_truthy (twitter b2), s_instagram = if_truthy (instagram b2),
          s_linkedin = if_truthy (linkedin b2)\<rparr>"
    using so by (simp add: build_profileFields_def)
  have gone: "\<not> truthy (youtube b2) \<longrightarrow> s_youtube (p_social p2) = None"
    "\<not> truthy (facebook b2) \<longrightarrow> s_facebook (p_social p2) = None"
    "\<not> truthy (twitter b2) \<longrightarrow> s_twitter (p_social p2) = None"
    "\<not> truthy (instagram b2) \<longrightarrow> s_instagram (p_social p2) = None"
    "\<not> truthy (linkedin b2) \<longrightarrow> s_linkedin (p_social p2) = None"
    by (simp_all add: social if_truthy_omitted)
  show "\<exists>p2. profiles (snd (upsertProfile (snd (upsertProfile s u b1)) u b2)) u = Some p2
        \<and> (truthy (company b1) \<and> \<not> truthy (company b2) \<longrightarrow> p_company p2 = company b1)
        \<and> (truthy (website b1) \<and> \<not> truthy (website b2) \<longrightarrow> p_website p2 = website b1)
        \<and> (truthy (location b1) \<and> \<not> truthy (location b2) \<longrightarrow> p_location p2 = location b1)
        \<and> (truthy (bio b1) \<and> \<not> truthy (bio b2) \<longrightarrow> p_bio p2 = bio b1)
        \<and> (truthy (githubusername b1) \<and> \<not> truthy (githubusername b2)
             \<longrightarrow> p_githubusername p2 = githubusername b1)
        \<and> p_social p2 =
             \<lparr>s_youtube = if_truthy (youtube b2), s_facebook = if_truthy (facebook b2),
              s_twitter = if_truthy (twitter b2), s_instagram = if_truthy (instagram b2),
              s_linkedin = if_truthy (linkedin b2)\<rparr>
        \<and> (\<not> truthy (youtube b2) \<longrightarrow> s_youtube (p_social p2) = None)
        \<and> (\<not> truthy (facebook b2) \<longrightarrow> s_facebook (p_social p2) = None)
        \<and> (\<not> truthy (twitter b2) \<longrightarrow> s_twitter (p_social p2) = None)
        \<and> (\<not> truthy (instagram b2) \<longrightarrow> s_instagram (p_social p2) = None)
        \<and> (\<not> truthy (linkedin b2) \<longrightarrow> s_linkedin (p_social p2) = None)"
  proof (intro exI [of _ p2] conjI)
    show "profiles (snd (upsertProfile (snd (upsertProfile s u b1)) u b2)) u = Some p2"
      by (rule p2)
  qed (use f1 f2 social gone in simp_all)
next
  assume "\<not> not_empty (status b2) \<or> \<not> not_empty (skills b2)"
  then show "fst (fst (upsertProfile (snd (upsertProfile s u b1)) u b2)) = 400"
    by (rule upsertProfile_rejected(1))
next
  assume "\<not> not_empty (status b2) \<or> \<not> not_empty (skills b2)"
  then show "snd (upsertProfile (snd (upsertProfile s u b1)) u b2) = snd (upsertProfile s u b1)"
    by (rule upsertProfile_rejected(2))
qed

theorem second_upsert_keeps_first_only_fields_witness:
  "not_empty (status first_request) \<and> not_empty (skills first_request)
   \<and> not_empty (status second_request) \<and> not_empty (skills second_request)
   \<and> truthy (company first_request) \<and> \<not> truthy (company second_request)
   \<and> truthy (bio first_request) \<and> \<not> truthy (bio second_request)
   \<and> truthy (youtube first_request) \<and> \<not> truthy (youtube second_request)
   \<and> map_option p_company
        (profiles (snd (upsertProfile (snd (upsertProfile example_store ''alice'' first_request))
           ''alice'' second_request)) ''alice'') = Some (Some ''Acme'')
   \<and> map_option p_bio
        (profiles (snd (upsertProfile (snd (upsertProfile example_store ''alice'' first_request))
           ''alice'' second_request)) ''alice'') = Some (Some ''Writes code'')
   \<and> map_option p_social
        (profiles (snd (upsertProfile (snd (upsertProfile example_store ''alice'' first_request))
           ''alice'' second_request)) ''alice'')
       = Some \<lparr>s_youtube = None, s_facebook = None, s_twitter = Some ''twitter.com/alice'',
               s_instagram = None, s_linkedin = None\<rparr>
   \<and> \<not> not_empty (status disjoint_request)
   \<and> fst (fst (upsertProfile (snd (upsertProfile example_store ''alice'' first_request))
        ''alice'' disjoint_request)) = 400
   \<and> snd (upsertProfile (snd (upsertProfile example_store ''alice'' first_request))
        ''alice'' disjoint_request)
       = snd (upsertProfile example_store ''alice'' first_request)"
proof -
  have v1: "not_empty (status first_request)" "not_empty (skills first_request)"
    by (simp_all add: not_empty_def first_request_def)
  have v2: "not_empty (status second_request)" "not_empty (skills second_request)"
    by (simp_all add: not_empty_def second_request_def)
  have v3: "\<not> not_empty (status disjoint_request)"
    by (simp add: not_empty_def disjoint_request_def)
  have t: "truthy (company first_request)" "\<not> truthy (company second_request)"
    "truthy (bio first_request)" "\<not> truthy (bio second_request)"
    "truthy (youtube first_request)" "\<not> truthy (youtube second_request)"
    by (simp_all add: truthy_def first_request_def second_request_def)
  have r: "company first_request = Some ''Acme''" "bio first_request = Some ''Writes code''"
    "if_truthy (youtube second_request) = None" "if_truthy (facebook second_request) = None"
    "if_truthy (twitter second_request) = Some ''twitter.com/alice''"
    "if_truthy (instagram second_request) = None" "if_truthy (linkedin second_request) = None"
    by (simp_all add: if_truthy_def truthy_def first_request_def second_request_def)
  from second_upsert_keeps_first_only_fields
    [OF v1, where s = example_store and u = "''alice''" and ?b2.0 = second_request,
     THEN conjunct1, THEN mp, OF conjI, OF v2]
  obtain p2 where
    "profiles (snd (upsertProfile (snd (upsertProfile example_store ''alice'' first_request))
       ''alice'' second_request)) ''alice'' = Some p2"
    and "truthy (company first_request) \<and> \<not> truthy (company second_request)
         \<longrightarrow> p_company p2 = company first_request"
    and "truthy (bio first_request) \<and> \<not> truthy (bio second_request)
         \<longrightarrow> p_bio p2 = bio first_request"
    and "p_social p2 =
         \<lparr>s_youtube = if_truthy (youtube second_request),
          s_facebook = if_truthy (facebook second_request),
          s_twitter = if_truthy (twitter second_request),
          s_instagram = if_truthy (instagram second_request),
          s_linkedin = if_truthy (linkedin second_request)\<rparr>"
    by blast
  with t r have accepted:
    "map_option p_company
        (profiles (snd (upsertProfile (snd (upsertProfile example_store ''alice'' first_request))
           ''alice'' second_request)) ''alice'') = Some (Some ''Acme'')"
    "map_option p_bio
        (profiles (snd (upsertProfile (snd (upsertProfile example_store ''alice'' first_request))
           ''alice'' second_request)) ''alice'') = Some (Some ''Writes code'')"
    "map_option p_social
        (profiles (snd (upsertProfile (snd (upsertProfile example_store ''alice'' first_request))
           ''alice'' second_request)) ''alice'')
       = Some \<lparr>s_youtube = None, s_facebook = None, s_twitter = Some ''twitter.com/alice'',
               s_instagram = None, s_linkedin = None\<rparr>"
    by simp_all
  from second_upsert_keeps_first_only_fields
    [OF v1, where s = example_store and u = "''alice''" and ?b2.0 = disjoint_request,
     THEN conjunct2, THEN mp, OF disjI1, OF v3]
  have rejected:
    "fst (fst (upsertProfile (snd (upsertProfile example_store ''alice'' first_request))
        ''alice'' disjoint_request)) = 400"
    "snd (upsertProfile (snd (upsertProfile example_store ''alice'' first_request))
        ''alice'' disjoint_request)
       = snd (upsertProfile example_store ''alice'' first_request)"
    by blast+
  show ?thesis by (intro conjI; fact v1 v2 v3 t accepted rejected)
qed

text \<open>
  Claim C10. A top-level field given as the empty string has the effect of the field
  left out: the two calls leave the same store, and the same answer for the fields that
  are not validated. On an existing profile the stored value of that field is the one
  from before the call.
\<close>

theorem falsy_field_is_omitted:
  "upsertProfile s u (b\<lparr>company := Some []\<rparr>) = upsertProfile s u (b\<lparr>company := None\<rparr>)
   \<and> upsertProfile s u (b\<lparr>website := Some []\<rparr>) = upsertProfile s u (b\<lparr>website := None\<rparr>)
   \<and> upsertProfile s u (b\<lparr>location := Some []\<rparr>) = upsertProfile s u (b\<lparr>location := None\<rparr>)
   \<and> upsertProfile s u (b\<lparr>bio := Some []\<rparr>) = upsertProfile s u (b\<lparr>bio := None\<rparr>)
   \<and> upsertProfile s u (b\<lparr>githubusername := Some []\<rparr>)
       = upsertProfile s u (b\<lparr>githubusername := None\<rparr>)
   \<and> snd (upsertProfile s u (b\<lparr>status := Some []\<rparr>))
       = snd (upsertProfile s u (b\<lparr>status := None\<rparr>))
   \<and> snd (upsertProfile s u (b\<lparr>skills := Some []\<rparr>))
       = snd (upsertProfile s u (b\<lparr>skills := None\<rparr>))
   \<and> (profiles s u = Some p \<longrightarrow>
        map_option p_company (profiles (snd (upsertProfile s u (b\<lparr>company := Some []\<rparr>))) u)
          = Some (p_company p)
      \<and> map_option p_website (profiles (snd (upsertProfile s u (b\<lparr>website := Some []\<rparr>))) u)
          = Some (p_website p)
      \<and> map_option p_location (profiles (snd (upsertProfile s u (b\<lparr>location := Some []\<rparr>))) u)
          = Some (p_location p)
      \<and> map_option p_bio (profiles (snd (upsertProfile s u (b\<lparr>bio := Some []\<rparr>))) u)
          = Some (p_bio p)
      \<and> map_option p_githubusername
           (profiles (snd (upsertProfile s u (b\<lparr>githubusername := Some []\<rparr>))) u)
          = Some (p_githubusername p)
      \<and> map_option p_status (profiles (snd (upsertProfile s u (b\<lparr>status := Some []\<rparr>))) u)
          = Some (p_status p)
      \<and> map_option p_skills (profiles (snd (upsertProfile s u (b\<lparr>skills := Some []\<rparr>))) u)
          = Some (p_skills p))"
proof -
  have same_fields:
    "build_profileFields u (b\<lparr>company := Some []\<rparr>) = build_profileFields u (b\<lparr>company := None\<rparr>)"
    "build_profileFields u (b\<lparr>website := Some []\<rparr>) = build_profileFields u (b\<lparr>website := None\<rparr>)"
    "build_profileFields u (b\<lparr>location := Some []\<rparr>) = build_profileFields u (b\<lparr>location := None\<rparr>)"
    "build_profileFields u (b\<lparr>bio := Some []\<rparr>) = build_profileFields u (b\<lparr>bio := None\<rparr>)"
    "build_profileFields u (b\<lparr>githubusername := Some []\<rparr>)
       = build_profileFields u (b\<lparr>githubusername := None\<rparr>)"
    by (simp_all add: build_profileFields_def if_truthy_def truthy_def)
  have same_answer:
    "upsertProfile s u (b\<lparr>company := Some []\<rparr>) = upsertProfile s u (b\<lparr>company := None\<rparr>)"
    "upsertProfile s u (b\<lparr>website := Some []\<rparr>) = upsertProfile s u (b\<lparr>website := None\<rparr>)"
    "upsertProfile s u (b\<lparr>location := Some []\<rparr>) = upsertProfile s u (b\<lparr>location := None\<rparr>)"
    "upsertProfile s u (b\<lparr>bio := Some []\<rparr>) = upsertProfile s u (b\<lparr>bio := None\<rparr>)"
    "upsertProfile s u (b\<lparr>githubusername := Some []\<rparr>)
       = upsertProfile s u (b\<lparr>githubusername := None\<rparr>)"
    by (simp_all add: upsertProfile_def same_fields)
  have rejected:
    "snd (upsertProfile s u (b\<lparr>status := Some []\<rparr>)) = s"
    "snd (upsertProfile s u (b\<lparr>status := None\<rparr>)) = s"
    "snd (upsertProfile s u (b\<lparr>skills := Some []\<rparr>)) = s"
    "snd (upsertProfile s u (b\<lparr>skills := None\<rparr>)) = s"
    by (simp_all add: upsertProfile_def check_field_def not_empty_def)
  have kept: "profiles s u = Some p \<longrightarrow>
        map_option p_company (profiles (snd (upsertProfile s u (b\<lparr>company := Some []\<rparr>))) u)
          = Some (p_company p)
      \<and> map_option p_website (profiles (snd (upsertProfile s u (b\<lparr>website := Some []\<rparr>))) u)
          = Some (p_website p)
      \<and> map_option p_location (profiles (snd (upsertProfile s u (b\<lparr>location := Some []\<rparr>))) u)
          = Some (p_location p)
      \<and> map_option p_bio (profiles (snd (upsertProfile s u (b\<lparr>bio := Some []\<rparr>))) u)
          = Some (p_bio p)
      \<and> map_option p_githubusername
           (profiles (snd (upsertProfile s u (b\<lparr>githubusername := Some []\<rparr>))) u)
          = Some (p_githubusername p)"
    by (simp add: upsertProfile_stored set_profileFields_def build_profileFields_def
        if_truthy_def truthy_def set_key_def)
  from same_answer rejected kept show ?thesis by simp
qed

theorem falsy_field_is_omitted_witness:
  "profiles example_store ''alice'' = Some example_profile
   \<and> p_company example_profile = Some ''Acme''
   \<and> map_option p_company
        (profiles (snd (upsertProfile example_store ''alice'' (second_request\<lparr>company := Some []\<rparr>)))
           ''alice'') = Some (Some ''Acme'')
   \<and> upsertProfile example_store ''alice'' (second_request\<lparr>company := Some []\<rparr>)
       = upsertProfile example_store ''alice'' (second_request\<lparr>company := None\<rparr>)"
proof -
  have p: "profiles example_store ''alice'' = Some example_profile"
    by (simp add: example_store_def)
  have c: "p_company example_profile = Some ''Acme''"
    by (simp add: example_profile_def)
  from falsy_field_is_omitted [of example_store "''alice''" second_request example_profile] p
  have same: "upsertProfile example_store ''alice'' (second_request\<lparr>company := Some []\<rparr>)
       = upsertProfile example_store ''alice'' (second_request\<lparr>company := None\<rparr>)"
    and kept: "map_option p_company
        (profiles (snd (upsertProfile example_store ''alice'' (second_request\<lparr>company := Some []\<rparr>)))
           ''alice'') = Some (p_company example_profile)"
    by blast+
  from kept c have "map_option p_company
        (profiles (snd (upsertProfile example_store ''alice'' (second_request\<lparr>company := Some []\<rparr>)))
           ''alice'') = Some (Some ''Acme'')"
    by (simp only:)
  with p c same show ?thesis by blast
qed

end
